theory Spec2Isabelle
  imports Complex_Main "HOL-Library.Multiset"
begin

section \<open>Data model (src/types/index.ts)\<close>

text \<open>
  The TypeScript type \<open>number\<close> is modelled as \<open>real\<close>: finite values, exact
  arithmetic. Where the source can produce a value that is not a finite number (a
  division by zero gives \<open>Infinity\<close> or \<open>NaN\<close>), the model returns \<open>None\<close>.
  Optional fields (\<open>phone?\<close>, \<open>notes?\<close>, \<open>remarks?\<close>, \<open>note?\<close>) are options, and
  \<open>string | null\<close> is \<open>string option\<close>. The fields \<open>id\<close>, \<open>name\<close>, \<open>workerId\<close>,
  \<open>date\<close> and \<open>note(s)\<close> occur in several interfaces or clash with a keyword; they
  carry the interface's name as a prefix.
\<close>

datatype LabourStatus = present | absent | leave | standby

datatype PaymentCategory = advance | material | bonus | deduction

record Worker =
  worker_id :: string
  worker_name :: string
  trade :: string
  dailyRate :: real
  status :: LabourStatus
  phone :: "string option"
  contractorId :: string

record Contractor =
  contractor_id :: string
  contractor_name :: string
  company :: string
  scope :: string
  budget :: real
  startDate :: string
  endDate :: string
  crewSizeTarget :: real
  contractor_notes :: "string option"

record AttendanceRecord =
  attendance_id :: string
  attendance_workerId :: string
  attendance_date :: string
  hoursWorked :: real
  presence :: LabourStatus
  remarks :: "string option"
  site :: string

record Payment =
  payment_id :: string
  payment_workerId :: string
  amount :: real
  payment_date :: string
  category :: PaymentCategory
  payment_note :: "string option"

text \<open>The argument types \<open>Omit<Worker, "id">\<close>, \<open>Omit<AttendanceRecord, "id">\<close> and
  \<open>Omit<Payment, "id">\<close> of the store's operations.\<close>

record WorkerInput =
  wi_name :: string
  wi_trade :: string
  wi_dailyRate :: real
  wi_status :: LabourStatus
  wi_phone :: "string option"
  wi_contractorId :: string

record AttendanceInput =
  ai_workerId :: string
  ai_date :: string
  ai_hoursWorked :: real
  ai_presence :: LabourStatus
  ai_remarks :: "string option"
  ai_site :: string

record PaymentInput =
  pi_workerId :: string
  pi_amount :: real
  pi_date :: string
  pi_category :: PaymentCategory
  pi_note :: "string option"

section \<open>The store (src/store/useWorkspaceStore.ts)\<close>

record WorkspaceState =
  contractors :: "Contractor list"
  workers :: "Worker list"
  attendance :: "AttendanceRecord list"
  payments :: "Payment list"
  selectedContractorId :: "string option"

text \<open>
  The seed data is built from \<open>today = new Date()\<close> at module load. The seven date
  strings that \<open>format\<close> produces from it are taken as they come from the platform's
  \<open>Date\<close>: they are the fields of \<open>SeedDates\<close>.
\<close>

record SeedDates =
  monthFirst :: string      \<comment> \<open>\<open>format(new Date(y, m, 1))\<close>\<close>
  nextMonthLast :: string   \<comment> \<open>\<open>format(new Date(y, m + 2, 0))\<close>\<close>
  monthFifth :: string      \<comment> \<open>\<open>format(new Date(y, m, 5))\<close>\<close>
  nextMonth20th :: string   \<comment> \<open>\<open>format(new Date(y, m + 1, 20))\<close>\<close>
  todayIso :: string        \<comment> \<open>\<open>format(today)\<close>\<close>
  twoDaysAgo :: string      \<comment> \<open>\<open>format(new Date(y, m, d - 2))\<close>\<close>
  sevenDaysAgo :: string    \<comment> \<open>\<open>format(new Date(y, m, d - 7))\<close>\<close>

definition initialContractors :: "SeedDates \<Rightarrow> Contractor list" where
  "initialContractors sd =
     [ \<lparr> contractor_id = ''c1'', contractor_name = ''Skyline Mechanical'',
         company = ''Skyline Mechanical'',
         scope = ''High-rise plumbing installation & QA'',
         budget = 180000, startDate = monthFirst sd, endDate = nextMonthLast sd,
         crewSizeTarget = 12,
         contractor_notes = Some ''Key milestone: pressure test every Wednesday.'' \<rparr>,
       \<lparr> contractor_id = ''c2'', contractor_name = ''BlueWave Piping'',
         company = ''BlueWave Piping'',
         scope = ''Basement drainage rerouting'',
         budget = 95000, startDate = monthFifth sd, endDate = nextMonth20th sd,
         crewSizeTarget = 8,
         contractor_notes = Some ''Coordinate with civil to avoid conduit clashes.'' \<rparr> ]"

definition initialWorkers :: "Worker list" where
  "initialWorkers =
     [ \<lparr> worker_id = ''w1'', worker_name = ''Priya Sharma'', trade = ''Pipe Fitter'',
         dailyRate = 4200, status = present, phone = Some ''+91 98765 43210'',
         contractorId = ''c1'' \<rparr>,
       \<lparr> worker_id = ''w2'', worker_name = ''Akash Patel'', trade = ''Welder'',
         dailyRate = 4600, status = present, phone = Some ''+91 93210 76543'',
         contractorId = ''c1'' \<rparr>,
       \<lparr> worker_id = ''w3'', worker_name = ''Michael Lopez'', trade = ''Foreman'',
         dailyRate = 5800, status = leave, phone = Some ''+1 415-555-2010'',
         contractorId = ''c2'' \<rparr>,
       \<lparr> worker_id = ''w4'', worker_name = ''Lily Chen'', trade = ''Assistant'',
         dailyRate = 3600, status = standby, phone = None,
         contractorId = ''c2'' \<rparr> ]"

definition initialAttendance :: "SeedDates \<Rightarrow> AttendanceRecord list" where
  "initialAttendance sd =
     [ \<lparr> attendance_id = ''a1'', attendance_workerId = ''w1'',
         attendance_date = todayIso sd, hoursWorked = 8, presence = present,
         remarks = Some ''Stack 12 inspection passed'', site = ''Tower B level 21'' \<rparr>,
       \<lparr> attendance_id = ''a2'', attendance_workerId = ''w2'',
         attendance_date = todayIso sd, hoursWorked = 15 / 2, presence = present,
         remarks = Some ''Pressure test follow-up'', site = ''Tower B roof'' \<rparr>,
       \<lparr> attendance_id = ''a3'', attendance_workerId = ''w3'',
         attendance_date = todayIso sd, hoursWorked = 0, presence = leave,
         remarks = Some ''Family emergency'', site = ''Basement shaft'' \<rparr> ]"

definition initialPayments :: "SeedDates \<Rightarrow> Payment list" where
  "initialPayments sd =
     [ \<lparr> payment_id = ''p1'', payment_workerId = ''w1'', amount = 12000,
         payment_date = twoDaysAgo sd, category = advance,
         payment_note = Some ''Rotation bonus'' \<rparr>,
       \<lparr> payment_id = ''p2'', payment_workerId = ''w2'', amount = 18000,
         payment_date = sevenDaysAgo sd, category = material,
         payment_note = Some ''Gas cylinder procurement'' \<rparr> ]"

text \<open>\<open>selectedContractorId: initialContractors[0]?.id ?? null\<close>\<close>

definition initialState :: "SeedDates \<Rightarrow> WorkspaceState" where
  "initialState sd =
     \<lparr> contractors = initialContractors sd,
       workers = initialWorkers,
       attendance = initialAttendance sd,
       payments = initialPayments sd,
       selectedContractorId =
         (case initialContractors sd of [] \<Rightarrow> None | c # _ \<Rightarrow> Some (contractor_id c)) \<rparr>"

text \<open>
  Each operation is a \<open>set((state) => ...)\<close> on an immer draft: the model takes the state
  and returns the next one. None of them throws or returns a value, so the result type
  is the state itself. \<open>crypto.randomUUID()\<close> belongs to the platform; the string it
  returns in a call is the argument \<open>uuid\<close> of that operation.
\<close>

definition setSelectedContractor :: "string option \<Rightarrow> WorkspaceState \<Rightarrow> WorkspaceState" where
  "setSelectedContractor i state = state\<lparr>selectedContractorId := i\<rparr>"

definition newAttendance :: "string \<Rightarrow> AttendanceInput \<Rightarrow> AttendanceRecord" where
  "newAttendance uuid input =
     \<lparr> attendance_id = uuid, attendance_workerId = ai_workerId input,
       attendance_date = ai_date input, hoursWorked = ai_hoursWorked input,
       presence = ai_presence input, remarks = ai_remarks input, site = ai_site input \<rparr>"

definition newPayment :: "string \<Rightarrow> PaymentInput \<Rightarrow> Payment" where
  "newPayment uuid input =
     \<lparr> payment_id = uuid, payment_workerId = pi_workerId input, amount = pi_amount input,
       payment_date = pi_date input, category = pi_category input, payment_note = pi_note input \<rparr>"

definition newWorker :: "string \<Rightarrow> WorkerInput \<Rightarrow> Worker" where
  "newWorker uuid worker =
     \<lparr> worker_id = uuid, worker_name = wi_name worker, trade = wi_trade worker,
       dailyRate = wi_dailyRate worker, status = wi_status worker, phone = wi_phone worker,
       contractorId = wi_contractorId worker \<rparr>"

text \<open>\<open>state.attendance.unshift({ id: crypto.randomUUID(), ...input })\<close>\<close>

definition addAttendance :: "string \<Rightarrow> AttendanceInput \<Rightarrow> WorkspaceState \<Rightarrow> WorkspaceState" where
  "addAttendance uuid input state =
     state\<lparr>attendance := newAttendance uuid input # attendance state\<rparr>"

text \<open>
  \<open>const record = xs.find(p); if (record) { record.f = v }\<close> writes to the first
  element that satisfies \<open>p\<close>, in place, and to nothing when there is none.
\<close>

fun patchFirst :: "('a \<Rightarrow> bool) \<Rightarrow> ('a \<Rightarrow> 'a) \<Rightarrow> 'a list \<Rightarrow> 'a list" where
  "patchFirst p f [] = []"
| "patchFirst p f (x # xs) = (if p x then f x # xs else x # patchFirst p f xs)"

definition updateAttendancePresence ::
  "string \<Rightarrow> LabourStatus \<Rightarrow> WorkspaceState \<Rightarrow> WorkspaceState" where
  "updateAttendancePresence i pres state =
     (case find (\<lambda>item. attendance_id item = i) (attendance state) of
        None \<Rightarrow> state
      | Some record \<Rightarrow>
          state\<lparr>attendance :=
            patchFirst (\<lambda>item. attendance_id item = i) (\<lambda>r. r\<lparr>presence := pres\<rparr>)
              (attendance state)\<rparr>)"

text \<open>\<open>state.payments.unshift({ id: crypto.randomUUID(), ...input })\<close>\<close>

definition addPayment :: "string \<Rightarrow> PaymentInput \<Rightarrow> WorkspaceState \<Rightarrow> WorkspaceState" where
  "addPayment uuid input state =
     state\<lparr>payments := newPayment uuid input # payments state\<rparr>"

definition updateWorkerStatus ::
  "string \<Rightarrow> LabourStatus \<Rightarrow> WorkspaceState \<Rightarrow> WorkspaceState" where
  "updateWorkerStatus workerId st state =
     (case find (\<lambda>item. worker_id item = workerId) (workers state) of
        None \<Rightarrow> state
      | Some worker \<Rightarrow>
          state\<lparr>workers :=
            patchFirst (\<lambda>item. worker_id item = workerId) (\<lambda>w. w\<lparr>status := st\<rparr>)
              (workers state)\<rparr>)"

text \<open>\<open>state.workers.push({ id: crypto.randomUUID(), ...worker })\<close>\<close>

definition addWorker :: "string \<Rightarrow> WorkerInput \<Rightarrow> WorkspaceState \<Rightarrow> WorkspaceState" where
  "addWorker uuid worker state =
     state\<lparr>workers := workers state @ [newWorker uuid worker]\<rparr>"

text \<open>
  The caller's view of the store: a mutation is one call of one of the six operations,
  and a session is a list of them applied to a state from left to right.
\<close>

datatype Mutation =
    SetSelectedContractor "string option"
  | AddAttendance string AttendanceInput
  | UpdateAttendancePresence string LabourStatus
  | AddPayment string PaymentInput
  | UpdateWorkerStatus string LabourStatus
  | AddWorker string WorkerInput

fun mutate :: "Mutation \<Rightarrow> WorkspaceState \<Rightarrow> WorkspaceState" where
  "mutate (SetSelectedContractor i) state = setSelectedContractor i state"
| "mutate (AddAttendance uuid input) state = addAttendance uuid input state"
| "mutate (UpdateAttendancePresence i pres) state = updateAttendancePresence i pres state"
| "mutate (AddPayment uuid input) state = addPayment uuid input state"
| "mutate (UpdateWorkerStatus i st) state = updateWorkerStatus i st state"
| "mutate (AddWorker uuid worker) state = addWorker uuid worker state"

fun run :: "Mutation list \<Rightarrow> WorkspaceState \<Rightarrow> WorkspaceState" where
  "run [] state = state"
| "run (m # ms) state = run ms (mutate m state)"




section \<open>The derivations (src/components/AgentDashboard.tsx)\<close>

text \<open>
  Each \<open>useMemo\<close> of the component is a function of the store's snapshot. The members
  of the object \<open>totals\<close> are the functions \<open>dailySpend\<close>, \<open>totalPayments\<close>,
  \<open>presentCount\<close>, \<open>offCount\<close> and \<open>crewHealth\<close>.
\<close>

definition dailyPresenceWeight :: "LabourStatus \<Rightarrow> real" where
  "dailyPresenceWeight s =
     (case s of present \<Rightarrow> 1 | standby \<Rightarrow> 0.5 | leave \<Rightarrow> 0 | absent \<Rightarrow> 0)"

text \<open>\<open>contractors.find((item) => item.id === selectedContractorId) ?? null\<close>\<close>

definition selectedContractor :: "WorkspaceState \<Rightarrow> Contractor option" where
  "selectedContractor state =
     find (\<lambda>item. Some (contractor_id item) = selectedContractorId state) (contractors state)"

definition crew :: "WorkspaceState \<Rightarrow> Worker list" where
  "crew state =
     filter (\<lambda>worker. case selectedContractor state of
                         Some c \<Rightarrow> contractorId worker = contractor_id c
                       | None \<Rightarrow> True)
       (workers state)"


definition latestPayments :: "WorkspaceState \<Rightarrow> Payment list" where
  "latestPayments state =
     filter (\<lambda>payment. list_ex (\<lambda>worker. worker_id worker = payment_workerId payment)
                         (crew state))
       (payments state)"

text \<open>\<open>crew.reduce((total, worker) => total + worker.dailyRate * weight, 0)\<close>\<close>

definition dailySpend :: "WorkspaceState \<Rightarrow> real" where
  "dailySpend state =
     foldl (\<lambda>total worker. total + dailyRate worker * dailyPresenceWeight (status worker))
       0 (crew state)"

definition totalPayments :: "WorkspaceState \<Rightarrow> real" where
  "totalPayments state =
     foldl (\<lambda>total payment. total + amount payment) 0 (latestPayments state)"

definition presentCount :: "WorkspaceState \<Rightarrow> nat" where
  "presentCount state = length (filter (\<lambda>worker. status worker = present) (crew state))"

definition offCount :: "WorkspaceState \<Rightarrow> nat" where
  "offCount state = length (crew state) - presentCount state"

text \<open>\<open>selectedContractor?.budget ?? 0\<close> (computed, not used)\<close>

definition contractorBudget :: "WorkspaceState \<Rightarrow> real" where
  "contractorBudget state =
     (case selectedContractor state of Some c \<Rightarrow> budget c | None \<Rightarrow> 0)"

text \<open>\<open>selectedContractor?.crewSizeTarget ?? crew.length\<close>\<close>

definition targetCrew :: "WorkspaceState \<Rightarrow> real" where
  "targetCrew state =
     (case selectedContractor state of
        Some c \<Rightarrow> crewSizeTarget c
      | None \<Rightarrow> real (length (crew state)))"

text \<open>
  \<open>crew.length ? Math.round((presentCount / targetCrew) * 100) : 0\<close>.
  \<open>Math.round\<close> rounds to the nearest integer, a half upwards, as \<open>round\<close> does.
  With \<open>targetCrew\<close> zero the quotient is \<open>Infinity\<close> or \<open>NaN\<close> and so is the
  result: that is \<open>None\<close>.
\<close>

definition crewHealth :: "WorkspaceState \<Rightarrow> int option" where
  "crewHealth state =
     (if length (crew state) \<noteq> 0
      then (if targetCrew state = 0 then None
            else Some (round (real (presentCount state) / targetCrew state * 100)))
      else Some 0)"








section \<open>Properties of states and sessions\<close>

text \<open>The selection cursor is \<open>null\<close> or the id of a contractor of the collection.\<close>

definition selectionValid :: "WorkspaceState \<Rightarrow> bool" where
  "selectionValid state =
     (case selectedContractorId state of
        None \<Rightarrow> True
      | Some i \<Rightarrow> list_ex (\<lambda>c. contractor_id c = i) (contractors state))"

text \<open>A call that moves the cursor moves it to \<open>null\<close> or to a contractor of \<open>cs\<close>,
  as the dashboard's \<open>select\<close> does: its options are the contractors' ids.\<close>

fun selectsExisting :: "Contractor list \<Rightarrow> Mutation \<Rightarrow> bool" where
  "selectsExisting cs (SetSelectedContractor (Some i)) =
     list_ex (\<lambda>c. contractor_id c = i) cs"
| "selectsExisting cs m = True"

text \<open>The crew as the specification words it: the workers of the contractor whose id
  the cursor holds, and all workers when the cursor is \<open>null\<close>.\<close>

definition crewAsClaimed :: "WorkspaceState \<Rightarrow> Worker list" where
  "crewAsClaimed state =
     (case selectedContractorId state of
        None \<Rightarrow> workers state
      | Some i \<Rightarrow> filter (\<lambda>worker. contractorId worker = i) (workers state))"


section \<open>Example data\<close>

text \<open>The seed as it is built when the module loads on 15 March 2024 (UTC).\<close>

definition exampleDates :: SeedDates where
  "exampleDates =
     \<lparr> monthFirst = ''2024-03-01'', nextMonthLast = ''2024-04-30'',
       monthFifth = ''2024-03-05'', nextMonth20th = ''2024-04-20'',
       todayIso = ''2024-03-15'', twoDaysAgo = ''2024-03-13'',
       sevenDaysAgo = ''2024-03-08'' \<rparr>"




definition plumber :: WorkerInput where
  "plumber = \<lparr> wi_name = ''Asha Rao'', wi_trade = ''Plumber'', wi_dailyRate = 4000,
               wi_status = present, wi_phone = None, wi_contractorId = ''c1'' \<rparr>"

definition shift :: AttendanceInput where
  "shift = \<lparr> ai_workerId = ''w4'', ai_date = ''2024-03-15'', ai_hoursWorked = 0,
             ai_presence = leave, ai_remarks = None, ai_site = ''Basement shaft'' \<rparr>"

definition payout :: PaymentInput where
  "payout = \<lparr> pi_workerId = ''w1'', pi_amount = 5000, pi_date = ''2024-03-15'',
              pi_category = advance, pi_note = None \<rparr>"


text \<open>A session that calls five of the operations and ends on the second contractor,
  whose two workers are then both on leave.\<close>

definition exampleSession :: "Mutation list" where
  "exampleSession =
     [ AddWorker ''0b8f6c1e-5d0a-4c3b-9a51-2f3e4d5c6b7a'' plumber,
       AddAttendance ''1c9a7d2f-6e1b-4d4c-8b62-3a4f5e6d7c8b'' shift,
       UpdateWorkerStatus ''w4'' leave,
       AddPayment ''2dab8e30-7f2c-4e5d-9c73-4b506f7e8d9c'' payout,
       SetSelectedContractor (Some ''c2'') ]"

section \<open>Auxiliary facts\<close>

lemmas seed_defs = initialState_def initialContractors_def initialWorkers_def
  initialAttendance_def initialPayments_def exampleDates_def

lemmas op_defs = setSelectedContractor_def addAttendance_def addPayment_def addWorker_def
  updateAttendancePresence_def updateWorkerStatus_def newAttendance_def newPayment_def
  newWorker_def

lemmas input_defs = plumber_def shift_def payout_def

lemma find_absent: "i \<notin> f ` set xs \<Longrightarrow> find (\<lambda>item. f item = i) xs = None"
  by (induction xs) auto

lemma find_id_Some:
  "find (\<lambda>item. Some (f item) = k) xs = Some c \<Longrightarrow> k = Some (f c) \<and> c \<in> set xs"
  by (induction xs) (auto split: if_splits)

lemma find_id_None:
  "find (\<lambda>item. Some (f item) = k) xs = None \<longleftrightarrow> (\<forall>c\<in>set xs. Some (f c) \<noteq> k)"
  by (induction xs) auto


lemma foldl_plus: "foldl (\<lambda>total x. total + f x) a xs = (a::real) + sum_list (map f xs)"
  by (induction xs arbitrary: a) simp_all

subsection \<open>What a session leaves alone\<close>

lemma contractors_mutate: "contractors (mutate m state) = contractors state"
  by (cases m) (simp_all add: op_defs split: option.splits)

lemma contractors_run: "contractors (run ms state) = contractors state"
  by (induction ms arbitrary: state) (simp_all add: contractors_mutate)

lemma selectionValid_mutate:
  "selectionValid state \<Longrightarrow> selectsExisting (contractors state) m
     \<Longrightarrow> selectionValid (mutate m state)"
  by (cases m) (auto simp: selectionValid_def op_defs split: option.splits)

lemma selectionValid_run:
  "selectionValid state \<Longrightarrow> list_all (selectsExisting (contractors state)) ms
     \<Longrightarrow> selectionValid (run ms state)"
  by (induction ms arbitrary: state) (simp_all add: selectionValid_mutate contractors_mutate)

lemma selected_seed:
  assumes "contractors state = initialContractors sd"
  shows "selectedContractor state = None \<or>
         (\<exists>c. selectedContractor state = Some c \<and>
              (crewSizeTarget c = 12 \<or> crewSizeTarget c = 8))"
  using assms
  by (cases "selectedContractorId state")
     (auto simp: selectedContractor_def initialContractors_def)

subsection \<open>The ids a session holds\<close>






subsection \<open>The three groups of flags\<close>

lemma crew_cases:
  "crew state =
     (if \<exists>c\<in>set (contractors state). Some (contractor_id c) = selectedContractorId state
      then filter (\<lambda>worker. Some (contractorId worker) = selectedContractorId state)
             (workers state)
      else workers state)"
proof (cases "selectedContractor state")
  case None
  then have "\<forall>c\<in>set (contractors state). Some (contractor_id c) \<noteq> selectedContractorId state"
    by (simp add: selectedContractor_def find_id_None)
  with None show ?thesis by (simp add: crew_def)
next
  case (Some c)
  then have "selectedContractorId state = Some (contractor_id c)"
    and "c \<in> set (contractors state)"
    using find_id_Some[of contractor_id "selectedContractorId state" "contractors state" c]
    by (simp_all add: selectedContractor_def)
  with Some show ?thesis by (auto simp: crew_def)
qed







section \<open>The claims\<close>




text \<open>
  C2, crew resolution, as the code has it. When \<open>selectedContractorId\<close> is the id of a
  contractor of the collection, the crew is exactly the workers whose \<open>contractorId\<close>
  equals it, in the order of the workers collection. Otherwise, that is when it is
  \<open>null\<close> or an id that no contractor has, the crew is all workers.
\<close>

theorem crew_resolution:
  "crew state =
     (if list_ex (\<lambda>c. Some (contractor_id c) = selectedContractorId state) (contractors state)
      then filter (\<lambda>worker. Some (contractorId worker) = selectedContractorId state)
             (workers state)
      else workers state)"
  using crew_cases[of state] by (simp add: list_ex_iff)

text \<open>On the seed the crew of \<open>c1\<close> is \<open>w1\<close> and \<open>w2\<close>; with an unknown id, and with no
  selection, it is the four workers.\<close>

theorem crew_resolution_witness:
  "map worker_id (crew (initialState exampleDates)) = [''w1'', ''w2''] \<and>
   map worker_id
     (crew (run [SetSelectedContractor (Some ''unknown-id'')] (initialState exampleDates)))
     = [''w1'', ''w2'', ''w3'', ''w4''] \<and>
   map worker_id (crew (run [SetSelectedContractor None] (initialState exampleDates)))
     = [''w1'', ''w2'', ''w3'', ''w4'']"
  using crew_resolution[of "initialState exampleDates"]
        crew_resolution
          [of "run [SetSelectedContractor (Some ''unknown-id'')] (initialState exampleDates)"]
        crew_resolution[of "run [SetSelectedContractor None] (initialState exampleDates)"]
  by (simp add: seed_defs setSelectedContractor_def)

text \<open>
  C2 as it is worded fails after \<open>setSelectedContractor("unknown-id")\<close> on the seed:
  the cursor is a non-null id, no worker has it as \<open>contractorId\<close>, and the crew is
  all four workers.
\<close>

theorem crew_resolution_claim_counterexample:
  "selectedContractorId
     (run [SetSelectedContractor (Some ''unknown-id'')] (initialState exampleDates))
     = Some ''unknown-id'' \<and>
   crewAsClaimed
     (run [SetSelectedContractor (Some ''unknown-id'')] (initialState exampleDates)) = [] \<and>
   crew (run [SetSelectedContractor (Some ''unknown-id'')] (initialState exampleDates))
     = initialWorkers \<and>
   crew (run [SetSelectedContractor (Some ''unknown-id'')] (initialState exampleDates))
     \<noteq> crewAsClaimed
         (run [SetSelectedContractor (Some ''unknown-id'')] (initialState exampleDates))"
  by (simp add: seed_defs setSelectedContractor_def selectedContractor_def crew_def
        crewAsClaimed_def)

text \<open>
  C3, payroll projection. \<open>dailySpend\<close> is the sum over the crew of
  \<open>dailyRate * weight(status)\<close>, the weights being 1 for present, 0.5 for standby and
  0 for leave and for absent; the attendance log has no part in it.
\<close>

theorem payroll_projection:
  "dailySpend state =
     (\<Sum>worker\<leftarrow>crew state. dailyRate worker * dailyPresenceWeight (status worker)) \<and>
   dailyPresenceWeight present = 1 \<and> dailyPresenceWeight standby = 1 / 2 \<and>
   dailyPresenceWeight leave = 0 \<and> dailyPresenceWeight absent = 0 \<and>
   dailySpend (state\<lparr>attendance := records\<rparr>) = dailySpend state"
  by (simp add: dailySpend_def foldl_plus dailyPresenceWeight_def crew_def
        selectedContractor_def)

text \<open>The payroll scenario of the specification: the four seed workers cost 10600.\<close>

theorem payroll_projection_witness:
  "dailySpend (run [SetSelectedContractor None] (initialState exampleDates)) = 10600"
  using payroll_projection
          [of "run [SetSelectedContractor None] (initialState exampleDates)", THEN conjunct1]
  by (simp add: seed_defs setSelectedContractor_def crew_def selectedContractor_def
        dailyPresenceWeight_def)



text \<open>
  C5, selection invariant, as the code has it. \<open>setSelectedContractor\<close> stores its
  argument unchecked. In every state reached from the seed by a session whose
  \<open>setSelectedContractor\<close> calls pass \<open>null\<close> or the id of a contractor, the cursor is
  \<open>null\<close> or the id of a contractor of the collection.
\<close>

theorem selection_invariant:
  "list_all (selectsExisting (initialContractors sd)) ms \<Longrightarrow>
   selectionValid (run ms (initialState sd))"
proof -
  assume calls: "list_all (selectsExisting (initialContractors sd)) ms"
  have "selectionValid (initialState sd)"
    by (simp add: selectionValid_def initialState_def initialContractors_def)
  moreover have "contractors (initialState sd) = initialContractors sd"
    by (simp add: initialState_def)
  ultimately show ?thesis
    using calls selectionValid_run[of "initialState sd" ms] by simp
qed

theorem selection_invariant_witness:
  "list_all (selectsExisting (initialContractors exampleDates)) exampleSession \<and>
   selectionValid (run exampleSession (initialState exampleDates))"
  using selection_invariant[of exampleDates exampleSession]
  by (simp add: exampleSession_def initialContractors_def)

text \<open>
  C5 as it is worded fails after \<open>setSelectedContractor("unknown-id")\<close> on the seed: the
  cursor is then an id that no contractor has.
\<close>

theorem selection_invariant_claim_counterexample:
  "\<not> selectionValid
       (run [SetSelectedContractor (Some ''unknown-id'')] (initialState exampleDates))"
  by (simp add: selectionValid_def seed_defs setSelectedContractor_def)


text \<open>
  C7, silent no-op on a missing reference. When no worker has the id,
  \<open>updateWorkerStatus\<close> returns the state it was given, and when no attendance record
  has the id, so does \<open>updateAttendancePresence\<close>, whatever the status. Both return a
  state in every case: there is no error to signal.
\<close>

theorem missing_reference_noop:
  "(i \<notin> worker_id ` set (workers state) \<longrightarrow> updateWorkerStatus i st state = state) \<and>
   (j \<notin> attendance_id ` set (attendance state) \<longrightarrow>
      updateAttendancePresence j pres state = state)"
  by (simp add: updateWorkerStatus_def updateAttendancePresence_def find_absent)

theorem missing_reference_noop_witness:
  "''nonexistent-id'' \<notin> worker_id ` set (workers (initialState exampleDates)) \<and>
   updateWorkerStatus ''nonexistent-id'' present (initialState exampleDates)
     = initialState exampleDates \<and>
   ''nonexistent-id'' \<notin> attendance_id ` set (attendance (initialState exampleDates)) \<and>
   updateAttendancePresence ''nonexistent-id'' absent (initialState exampleDates)
     = initialState exampleDates"
  using missing_reference_noop
          [of "''nonexistent-id''" "initialState exampleDates" present
              "''nonexistent-id''" absent]
  by (simp add: seed_defs)





text \<open>
  C10, no division by zero in the crew-health metric. In every state reached from the
  seed by a session, the contractors are the two of the seed; when the crew is not
  empty, so that the division is performed, the divisor is 12, 8 or the size of the
  crew, which is then at least 1, hence not zero; and \<open>crewHealth\<close> is a finite
  number.
\<close>

theorem crew_health_division_safe:
  "contractors (run ms (initialState sd)) = initialContractors sd \<and>
   (crew (run ms (initialState sd)) \<noteq> [] \<longrightarrow>
      targetCrew (run ms (initialState sd)) = 12 \<or>
      targetCrew (run ms (initialState sd)) = 8 \<or>
      targetCrew (run ms (initialState sd)) = real (length (crew (run ms (initialState sd)))) \<and>
        1 \<le> length (crew (run ms (initialState sd)))) \<and>
   (crew (run ms (initialState sd)) \<noteq> [] \<longrightarrow> targetCrew (run ms (initialState sd)) \<noteq> 0) \<and>
   (\<exists>pct. crewHealth (run ms (initialState sd)) = Some pct)"
proof -
  define st where "st = run ms (initialState sd)"
  have cs: "contractors st = initialContractors sd"
    by (simp add: st_def contractors_run initialState_def)
  have tgt: "targetCrew st = 12 \<or> targetCrew st = 8 \<or>
             targetCrew st = real (length (crew st)) \<and> 1 \<le> length (crew st)"
    if "crew st \<noteq> []"
    using selected_seed[OF cs] that
    by (auto simp: targetCrew_def Suc_le_eq)
  then have nz: "targetCrew st \<noteq> 0" if "crew st \<noteq> []"
    using that by auto
  then have "\<exists>pct. crewHealth st = Some pct"
    by (simp add: crewHealth_def)
  with cs tgt nz show ?thesis
    unfolding st_def by blast
qed

theorem crew_health_division_safe_witness:
  "crew (run exampleSession (initialState exampleDates)) \<noteq> [] \<and>
   targetCrew (run exampleSession (initialState exampleDates)) \<noteq> 0 \<and>
   crewHealth (run exampleSession (initialState exampleDates)) \<noteq> None"
proof -
  have "crew (run exampleSession (initialState exampleDates)) \<noteq> []"
    by (simp add: seed_defs exampleSession_def input_defs op_defs crew_def
          selectedContractor_def)
  with crew_health_division_safe[of exampleSession exampleDates] show ?thesis
    by auto
qed

end
